theory Spec2Isabelle
  imports Main
begin

unbundle bit_operations_syntax

section \<open>VSCP UDP frames: a model of vscpudp/udp.py\<close>

text \<open>
  The module builds a VSCP multicast frame from an event (\<open>makeVscpFrame\<close>) and wraps a
  frame with AES in CBC mode (\<open>encryptVscpFrame\<close>). Python integers are modelled as
  \<open>int\<close>, a \<open>bytearray\<close> and a \<open>bytes\<close> value as a list of integers from 0 to 255, and
  every exception the code can raise as a value of \<open>error\<close>. The names the module reads from its
  surroundings (\<open>vscpEventEx\<close>, \<open>binascii\<close>, the \<open>vscp\<close> constants, the default keys) are
  taken as bound to what their names say.
\<close>

subsection \<open>Exceptions\<close>

datatype error =
    ValueError string
  | IndexError
  | BinasciiError
  | CipherError

text \<open>A statement that may raise, followed by the rest of the block.\<close>

fun bind :: "error + 'a \<Rightarrow> ('a \<Rightarrow> error + 'b) \<Rightarrow> error + 'b" where
  "bind (Inl err) k = Inl err"
| "bind (Inr x) k = k x"

subsection \<open>Constants of the vscp module\<close>

text \<open>
  Modelled from the spec: the module \<open>vscp\<close> that declares these constants is not among the
  sources. The positions follow the wire layout of the specification (section 6): packet
  type 1 byte, head 2, timestamp 4, year 2, month, day, hour, minute and second 1 each,
  class 2, type 2, GUID 16, data size 2, then the data; the header length is the sum of the
  fields between the packet type and the data, and the largest payload is the 479 bytes of
  the data model (section 3). The encryption identifiers are the algorithm bytes 0 to 3 of
  section 4.3.
\<close>

definition VSCP_LEVEL2_MAXDATA :: int where
  "VSCP_LEVEL2_MAXDATA = 479"

definition VSCP_MULTICAST_PACKET0_HEADER_LENGTH :: int where
  "VSCP_MULTICAST_PACKET0_HEADER_LENGTH = 35"

definition VSCP_MULTICAST_PACKET0_POS_PKTTYPE :: int where
  "VSCP_MULTICAST_PACKET0_POS_PKTTYPE = 0"

definition VSCP_MULTICAST_PACKET0_POS_HEAD_MSB :: int where
  "VSCP_MULTICAST_PACKET0_POS_HEAD_MSB = 1"

definition VSCP_MULTICAST_PACKET0_POS_HEAD_LSB :: int where
  "VSCP_MULTICAST_PACKET0_POS_HEAD_LSB = 2"

definition VSCP_MULTICAST_PACKET0_POS_TIMESTAMP :: int where
  "VSCP_MULTICAST_PACKET0_POS_TIMESTAMP = 3"

definition VSCP_MULTICAST_PACKET0_POS_YEAR_MSB :: int where
  "VSCP_MULTICAST_PACKET0_POS_YEAR_MSB = 7"

definition VSCP_MULTICAST_PACKET0_POS_YEAR_LSB :: int where
  "VSCP_MULTICAST_PACKET0_POS_YEAR_LSB = 8"

definition VSCP_MULTICAST_PACKET0_POS_MONTH :: int where
  "VSCP_MULTICAST_PACKET0_POS_MONTH = 9"

definition VSCP_MULTICAST_PACKET0_POS_DAY :: int where
  "VSCP_MULTICAST_PACKET0_POS_DAY = 10"

definition VSCP_MULTICAST_PACKET0_POS_HOUR :: int where
  "VSCP_MULTICAST_PACKET0_POS_HOUR = 11"

definition VSCP_MULTICAST_PACKET0_POS_MINUTE :: int where
  "VSCP_MULTICAST_PACKET0_POS_MINUTE = 12"

definition VSCP_MULTICAST_PACKET0_POS_SECOND :: int where
  "VSCP_MULTICAST_PACKET0_POS_SECOND = 13"

definition VSCP_MULTICAST_PACKET0_POS_VSCP_CLASS_MSB :: int where
  "VSCP_MULTICAST_PACKET0_POS_VSCP_CLASS_MSB = 14"

definition VSCP_MULTICAST_PACKET0_POS_VSCP_CLASS_LSB :: int where
  "VSCP_MULTICAST_PACKET0_POS_VSCP_CLASS_LSB = 15"

definition VSCP_MULTICAST_PACKET0_POS_VSCP_TYPE_MSB :: int where
  "VSCP_MULTICAST_PACKET0_POS_VSCP_TYPE_MSB = 16"

definition VSCP_MULTICAST_PACKET0_POS_VSCP_TYPE_LSB :: int where
  "VSCP_MULTICAST_PACKET0_POS_VSCP_TYPE_LSB = 17"

definition VSCP_MULTICAST_PACKET0_POS_VSCP_GUID :: int where
  "VSCP_MULTICAST_PACKET0_POS_VSCP_GUID = 18"

definition VSCP_MULTICAST_PACKET0_POS_VSCP_SIZE_MSB :: int where
  "VSCP_MULTICAST_PACKET0_POS_VSCP_SIZE_MSB = 34"

definition VSCP_MULTICAST_PACKET0_POS_VSCP_SIZE_LSB :: int where
  "VSCP_MULTICAST_PACKET0_POS_VSCP_SIZE_LSB = 35"

definition VSCP_MULTICAST_PACKET0_POS_VSCP_DATA :: int where
  "VSCP_MULTICAST_PACKET0_POS_VSCP_DATA = 36"





lemmas vscp_pos =
  VSCP_LEVEL2_MAXDATA_def
  VSCP_MULTICAST_PACKET0_HEADER_LENGTH_def
  VSCP_MULTICAST_PACKET0_POS_PKTTYPE_def
  VSCP_MULTICAST_PACKET0_POS_HEAD_MSB_def
  VSCP_MULTICAST_PACKET0_POS_HEAD_LSB_def
  VSCP_MULTICAST_PACKET0_POS_TIMESTAMP_def
  VSCP_MULTICAST_PACKET0_POS_YEAR_MSB_def
  VSCP_MULTICAST_PACKET0_POS_YEAR_LSB_def
  VSCP_MULTICAST_PACKET0_POS_MONTH_def
  VSCP_MULTICAST_PACKET0_POS_DAY_def
  VSCP_MULTICAST_PACKET0_POS_HOUR_def
  VSCP_MULTICAST_PACKET0_POS_MINUTE_def
  VSCP_MULTICAST_PACKET0_POS_SECOND_def
  VSCP_MULTICAST_PACKET0_POS_VSCP_CLASS_MSB_def
  VSCP_MULTICAST_PACKET0_POS_VSCP_CLASS_LSB_def
  VSCP_MULTICAST_PACKET0_POS_VSCP_TYPE_MSB_def
  VSCP_MULTICAST_PACKET0_POS_VSCP_TYPE_LSB_def
  VSCP_MULTICAST_PACKET0_POS_VSCP_GUID_def
  VSCP_MULTICAST_PACKET0_POS_VSCP_SIZE_MSB_def
  VSCP_MULTICAST_PACKET0_POS_VSCP_SIZE_LSB_def
  VSCP_MULTICAST_PACKET0_POS_VSCP_DATA_def


subsection \<open>Events and the clock\<close>

text \<open>
  Modelled from the spec: the class \<open>vscpEventEx\<close> is declared in the missing module. Its
  fields are the ones \<open>makeVscpFrame\<close> reads; \<open>guid\<close> and \<open>data\<close> are indexed sequences of
  bytes of whatever length the caller built, and reading past their end raises.
\<close>

record vscpEventEx =
  head :: int
  timestamp :: int
  year :: int
  month :: int
  day :: int
  hour :: int
  minute :: int
  second :: int
  vscpclass :: int
  vscptype :: int
  guid :: "int list"
  sizedata :: int
  data :: "int list"

text \<open>
  The argument \<open>e\<close> of \<open>makeVscpFrame\<close> is any object; \<open>isinstance(e, vscpEventEx)\<close>
  tells an extended event from everything else.
\<close>

datatype event = NotEx | Ex vscpEventEx

text \<open>
  The value of \<open>datetime.datetime.utcnow()\<close>: the reading of the wall clock is an input of
  the model. Python's \<open>dt.year\<close> is the full year (2020 for the year 2020).
\<close>

record datetime =
  dt_year :: int
  dt_month :: int
  dt_day :: int
  dt_hour :: int
  dt_minute :: int
  dt_second :: int

subsection \<open>Byte arrays and sequences\<close>

text \<open>\<open>bytearray(n)\<close>: \<open>n\<close> zero bytes.\<close>

definition bytearray :: "int \<Rightarrow> int list" where
  "bytearray n = replicate (nat n) 0"

text \<open>
  Python's index into a sequence of length \<open>n\<close>: a negative index counts from the end, and
  an index outside the sequence raises IndexError.
\<close>

definition index :: "nat \<Rightarrow> int \<Rightarrow> error + nat" where
  "index n i =
     (let j = (if i < 0 then int n + i else i)
      in if 0 \<le> j \<and> j < int n then Inr (nat j) else Inl IndexError)"

text \<open>
  \<open>frame[i] = v\<close> on a bytearray: IndexError for an index outside it, ValueError for a
  value that is not a byte.
\<close>

definition setitem :: "int list \<Rightarrow> int \<Rightarrow> int \<Rightarrow> error + int list" where
  "setitem frame i v =
     bind (index (length frame) i) (\<lambda>j.
     if v < 0 \<or> 256 \<le> v then Inl (ValueError ''byte must be in range(0, 256)'')
     else Inr (frame[j := v]))"

text \<open>\<open>xs[i]\<close> on a sequence.\<close>

definition getitem :: "int list \<Rightarrow> int \<Rightarrow> error + int" where
  "getitem xs i = bind (index (length xs) i) (\<lambda>j. Inr (xs ! j))"

text \<open>The slice \<open>xs[i:j]\<close> for bounds that are not negative; it never raises.\<close>

definition slice :: "'a list \<Rightarrow> int \<Rightarrow> int \<Rightarrow> 'a list" where
  "slice xs i j = take (nat j - nat i) (drop (nat i) xs)"

text \<open>
  \<open>for i in idxs: frame[pos + i] = src[i]\<close>, the shape of both copy loops. The right-hand
  side is read before the store.
\<close>

fun copy_loop :: "int list \<Rightarrow> int \<Rightarrow> int list \<Rightarrow> int list \<Rightarrow> error + int list" where
  "copy_loop [] pos src frame = Inr frame"
| "copy_loop (i # idxs) pos src frame =
     bind (getitem src i) (\<lambda>v.
     bind (setitem frame (pos + i) v) (\<lambda>frame.
     copy_loop idxs pos src frame))"

subsection \<open>The checksum of PyCRC\<close>

text \<open>
  Modelled from the spec: \<open>CRCCCITT(version='FFFF').calculate\<close> belongs to the package
  PyCRC, which is not among the sources. It is the 16-bit CRC of section 4.2: polynomial
  0x1021, register started at 0xFFFF, most significant bit first, driven by a table of 256
  entries, fed one character code at a time.
\<close>

fun crc_table_step :: "int \<times> int \<Rightarrow> int \<times> int" where
  "crc_table_step (crc, c) =
     ((if (crc XOR c) AND 0x8000 \<noteq> 0
       then (push_bit 1 crc AND 0xFFFF) XOR 0x1021
       else push_bit 1 crc AND 0xFFFF),
      push_bit 1 c AND 0xFFFF)"

definition crc_ccitt_table :: "int \<Rightarrow> int" where
  "crc_ccitt_table i = fst ((crc_table_step ^^ 8) (0, push_bit 8 i))"

definition crc_update :: "int \<Rightarrow> int \<Rightarrow> int" where
  "crc_update crcValue d =
     (let tmp = (drop_bit 8 crcValue AND 0xff) XOR d
      in (push_bit 8 crcValue AND 0xff00) XOR crc_ccitt_table tmp)"

definition calculate :: "int list \<Rightarrow> int" where
  "calculate input_data = foldl crc_update 0xFFFF input_data"

text \<open>
  \<open>'\\x{:02X}'.format(x)\<close>: the four characters backslash, \<open>x\<close> and the two upper-case
  hexadecimal digits of the byte, here as their character codes.
\<close>

definition hexdigit :: "int \<Rightarrow> int" where
  "hexdigit d = (if d < 10 then 48 + d else 55 + d)"

definition format_x02X :: "int \<Rightarrow> int list" where
  "format_x02X x = [92, 120, hexdigit (x div 16), hexdigit (x mod 16)]"

subsection \<open>makeVscpFrame\<close>

text \<open>Lines 65 to 73: head and timestamp.\<close>

definition write_head :: "vscpEventEx \<Rightarrow> int list \<Rightarrow> error + int list" where
  "write_head e frame =
     bind (setitem frame VSCP_MULTICAST_PACKET0_POS_HEAD_MSB (drop_bit 8 (head e) AND 0xff)) (\<lambda>frame.
     setitem frame VSCP_MULTICAST_PACKET0_POS_HEAD_LSB (head e AND 0xff))"

definition write_timestamp :: "vscpEventEx \<Rightarrow> int list \<Rightarrow> error + int list" where
  "write_timestamp e frame =
     bind (setitem frame VSCP_MULTICAST_PACKET0_POS_TIMESTAMP
             (drop_bit 24 (timestamp e) AND 0xff)) (\<lambda>frame.
     bind (setitem frame (VSCP_MULTICAST_PACKET0_POS_TIMESTAMP + 1)
             (drop_bit 8 (timestamp e) AND 0xff)) (\<lambda>frame.
     bind (setitem frame (VSCP_MULTICAST_PACKET0_POS_TIMESTAMP + 2)
             (drop_bit 8 (timestamp e) AND 0xff)) (\<lambda>frame.
     setitem frame (VSCP_MULTICAST_PACKET0_POS_TIMESTAMP + 3) (timestamp e AND 0xff))))"

text \<open>The seven stores of one branch of the date and time block (lines 81 to 87, 89 to 95).\<close>

definition write_block ::
  "int \<Rightarrow> int \<Rightarrow> int \<Rightarrow> int \<Rightarrow> int \<Rightarrow> int \<Rightarrow> int \<Rightarrow> int list \<Rightarrow> error + int list" where
  "write_block ymsb ylsb mo d h mi s frame =
     bind (setitem frame VSCP_MULTICAST_PACKET0_POS_YEAR_MSB ymsb) (\<lambda>frame.
     bind (setitem frame VSCP_MULTICAST_PACKET0_POS_YEAR_LSB ylsb) (\<lambda>frame.
     bind (setitem frame VSCP_MULTICAST_PACKET0_POS_MONTH mo) (\<lambda>frame.
     bind (setitem frame VSCP_MULTICAST_PACKET0_POS_DAY d) (\<lambda>frame.
     bind (setitem frame VSCP_MULTICAST_PACKET0_POS_HOUR h) (\<lambda>frame.
     bind (setitem frame VSCP_MULTICAST_PACKET0_POS_MINUTE mi) (\<lambda>frame.
     setitem frame VSCP_MULTICAST_PACKET0_POS_SECOND s))))))"

text \<open>Lines 79 to 95: the clock when all six fields are zero, the event's fields otherwise.\<close>

definition write_datetime :: "datetime \<Rightarrow> vscpEventEx \<Rightarrow> int list \<Rightarrow> error + int list" where
  "write_datetime dt e frame =
     (if 0 = year e \<and> 0 = month e \<and> 0 = day e \<and>
         0 = hour e \<and> 0 = minute e \<and> 0 = second e
      then write_block (drop_bit 8 (1900 + dt_year dt) AND 0xff) ((1900 + dt_year dt) AND 0xff)
             (dt_month dt) (dt_day dt) (dt_hour dt) (dt_minute dt) (dt_second dt) frame
      else write_block (drop_bit 8 (year e) AND 0xff) (year e AND 0xff)
             (month e) (day e) (hour e) (minute e) (second e) frame)"

text \<open>Lines 97 to 103: class and type.\<close>

definition write_class_type :: "vscpEventEx \<Rightarrow> int list \<Rightarrow> error + int list" where
  "write_class_type e frame =
     bind (setitem frame VSCP_MULTICAST_PACKET0_POS_VSCP_CLASS_MSB
             (drop_bit 8 (vscpclass e) AND 0xff)) (\<lambda>frame.
     bind (setitem frame VSCP_MULTICAST_PACKET0_POS_VSCP_CLASS_LSB (vscpclass e AND 0xff)) (\<lambda>frame.
     bind (setitem frame VSCP_MULTICAST_PACKET0_POS_VSCP_TYPE_MSB
             (drop_bit 8 (vscptype e) AND 0xff)) (\<lambda>frame.
     setitem frame VSCP_MULTICAST_PACKET0_POS_VSCP_TYPE_LSB (vscptype e AND 0xff))))"

text \<open>Lines 105 to 115: GUID, size and data. Both loops run over a tuple of two indices.\<close>

definition write_guid :: "vscpEventEx \<Rightarrow> int list \<Rightarrow> error + int list" where
  "write_guid e frame = copy_loop [0, 15] VSCP_MULTICAST_PACKET0_POS_VSCP_GUID (guid e) frame"

definition write_size :: "vscpEventEx \<Rightarrow> int list \<Rightarrow> error + int list" where
  "write_size e frame =
     bind (setitem frame VSCP_MULTICAST_PACKET0_POS_VSCP_SIZE_MSB
             (drop_bit 8 (sizedata e) AND 0xff)) (\<lambda>frame.
     setitem frame VSCP_MULTICAST_PACKET0_POS_VSCP_SIZE_LSB (sizedata e AND 0xff))"

definition write_data :: "vscpEventEx \<Rightarrow> int list \<Rightarrow> error + int list" where
  "write_data e frame =
     copy_loop [0, sizedata e] VSCP_MULTICAST_PACKET0_POS_VSCP_DATA (data e) frame"

text \<open>
  Lines 117 to 123: the checksum of the escaped text of
  \<open>frame[1 : VSCP_MULTICAST_PACKET0_POS_VSCP_DATA + 13]\<close>, stored at
  \<open>1 + VSCP_MULTICAST_PACKET0_HEADER_LENGTH + 13\<close> and the byte after it.
\<close>

definition binstr :: "int list \<Rightarrow> int list" where
  "binstr frame =
     concat (map format_x02X (slice frame 1 (VSCP_MULTICAST_PACKET0_POS_VSCP_DATA + 13)))"

definition write_crc :: "int list \<Rightarrow> error + int list" where
  "write_crc frame =
     (let framecrc = calculate (binstr frame) in
      bind (setitem frame (1 + VSCP_MULTICAST_PACKET0_HEADER_LENGTH + 13)
              (drop_bit 8 framecrc AND 0xff)) (\<lambda>frame.
      setitem frame (1 + VSCP_MULTICAST_PACKET0_HEADER_LENGTH + 13 + 1) (framecrc AND 0xff)))"

definition makeVscpFrame :: "datetime \<Rightarrow> int \<Rightarrow> event \<Rightarrow> error + int list" where
  "makeVscpFrame dt ptype ev =
     (case ev of
        NotEx \<Rightarrow> Inl (ValueError ''VSCP event must be vscpEventEx not vscpEvent.'')
      | Ex e \<Rightarrow>
          if sizedata e > VSCP_LEVEL2_MAXDATA
          then Inl (ValueError ''VSCP event has data size that is greater than allowed.'')
          else
            bind (setitem (bytearray (1 + VSCP_MULTICAST_PACKET0_HEADER_LENGTH +
                                      VSCP_LEVEL2_MAXDATA + 2))
                    VSCP_MULTICAST_PACKET0_POS_PKTTYPE ptype) (\<lambda>frame.
            bind (write_head e frame) (\<lambda>frame.
            bind (write_timestamp e frame) (\<lambda>frame.
            bind (write_datetime dt e frame) (\<lambda>frame.
            bind (write_class_type e frame) (\<lambda>frame.
            bind (write_guid e frame) (\<lambda>frame.
            bind (write_size e frame) (\<lambda>frame.
            bind (write_data e frame) (\<lambda>frame.
            bind (write_crc frame) (\<lambda>frame.
            Inr (slice frame 0 (1 + VSCP_MULTICAST_PACKET0_HEADER_LENGTH + 13 + 2))))))))))))"

subsection \<open>encryptVscpFrame\<close>












subsection \<open>What the specification asks of a frame\<close>

text \<open>
  The bytes \<open>frame[pos : pos + n]\<close> of the frame a call returned, or the exception it
  raised.
\<close>

definition frame_bytes :: "int \<Rightarrow> int \<Rightarrow> error + int list \<Rightarrow> error + int list" where
  "frame_bytes pos n r = bind r (\<lambda>frame. Inr (slice frame pos (pos + n)))"

text \<open>
  The checksum field as section 4.2 of the specification words it: the CRC of the bytes
  from the first byte after the packet type through the last of the \<open>n\<close> payload bytes,
  most significant byte first.
\<close>

definition spec_crc_bytes :: "int list \<Rightarrow> int \<Rightarrow> int list" where
  "spec_crc_bytes frame n =
     (let crc = calculate (slice frame 1 (VSCP_MULTICAST_PACKET0_POS_VSCP_DATA + n))
      in [drop_bit 8 crc AND 0xff, crc AND 0xff])"


text \<open>\<open>len(frame)\<close> of the frame a call returned, or the exception it raised.\<close>

definition frame_length :: "error + int list \<Rightarrow> error + int" where
  "frame_length r = bind r (\<lambda>frame. Inr (int (length frame)))"

text \<open>
  The timestamp field as step 4 of section 4.1 words it: 32 bits big-endian, the most
  significant byte first.
\<close>

definition spec_timestamp_bytes :: "int \<Rightarrow> int list" where
  "spec_timestamp_bytes t =
     [drop_bit 24 t AND 0xff, drop_bit 16 t AND 0xff, drop_bit 8 t AND 0xff, t AND 0xff]"

text \<open>
  The date and time block as step 5 of section 4.1 words it for an event without a date of
  its own: the clock's full year in 16 bits big-endian, then month, day, hour, minute and
  second, a byte each.
\<close>

definition spec_datetime_bytes :: "datetime \<Rightarrow> int list" where
  "spec_datetime_bytes dt =
     [drop_bit 8 (dt_year dt) AND 0xff, dt_year dt AND 0xff,
      dt_month dt, dt_day dt, dt_hour dt, dt_minute dt, dt_second dt]"

subsection \<open>Sample inputs\<close>

text \<open>A reading of the clock: 15 June 2020, 12:34:56 UTC.\<close>

definition clock :: datetime where
  "clock = \<lparr>dt_year = 2020, dt_month = 6, dt_day = 15,
             dt_hour = 12, dt_minute = 34, dt_second = 56\<rparr>"

text \<open>
  The scenario of section 8 of the specification: head and timestamp 0, 1 January 2020
  00:00:00, class 10, type 6, a GUID of sixteen bytes 0xAA and no data. The \<open>data\<close> field is
  the event's buffer of \<open>VSCP_LEVEL2_MAXDATA\<close> bytes, of which \<open>sizedata\<close> are in use.
\<close>

definition golden :: vscpEventEx where
  "golden = \<lparr>head = 0, timestamp = 0, year = 2020, month = 1, day = 1, hour = 0,
              minute = 0, second = 0, vscpclass = 10, vscptype = 6,
              guid = replicate 16 0xAA, sizedata = 0, data = replicate 479 0\<rparr>"

text \<open>
  An event with a timestamp of four different bytes, no date and time of its own, a GUID
  of sixteen different bytes and three bytes of data.
\<close>

definition sample :: vscpEventEx where
  "sample = \<lparr>head = 0, timestamp = 0x01020304, year = 0, month = 0, day = 0, hour = 0,
              minute = 0, second = 0, vscpclass = 10, vscptype = 6,
              guid = [1, 2, 3, 4, 5, 6, 7, 8, 9, 10, 11, 12, 13, 14, 15, 16],
              sizedata = 3, data = [17, 34, 51] @ replicate 476 0\<rparr>"

text \<open>The golden event with a declared size past the maximum.\<close>

definition oversize :: vscpEventEx where
  "oversize = golden\<lparr>sizedata := 480\<rparr>"




section \<open>Supporting facts\<close>

subsection \<open>Evaluating the frame builder\<close>

lemma golden_frame:
  "makeVscpFrame clock 0 (Ex golden) =
     Inr [0, 0, 0, 0, 0, 0, 0, 7, 228, 1, 1, 0, 0, 0, 0, 10, 0, 6, 170, 0, 0, 0,
          0, 0, 0, 0, 0, 0, 0, 0, 0, 0, 0, 170, 0, 0, 0, 0, 0, 0, 0, 0, 0, 0, 0,
          0, 0, 0, 0, 121, 86]"
  by code_simp

lemma sample_frame:
  "makeVscpFrame clock 0 (Ex sample) =
     Inr [0, 0, 0, 1, 3, 3, 4, 15, 80, 6, 15, 12, 34, 56, 0, 10, 0, 6, 1, 0, 0, 0,
          0, 0, 0, 0, 0, 0, 0, 0, 0, 0, 0, 16, 0, 3, 17, 0, 0, 0, 0, 0, 0, 0, 0,
          0, 0, 0, 0, 223, 110]"
  by code_simp

lemma golden_exact_raises:
  "makeVscpFrame clock 0 (Ex (golden\<lparr>data := []\<rparr>)) = Inl IndexError"
  by code_simp

lemma golden_full_raises:
  "makeVscpFrame clock 0 (Ex (golden\<lparr>sizedata := 479\<rparr>)) = Inl IndexError"
  by code_simp

subsection \<open>Padding\<close>



subsection \<open>Sample values\<close>



lemma golden_spec_crc:
  "spec_crc_bytes [0, 0, 0, 0, 0, 0, 0, 7, 228, 1, 1, 0, 0, 0, 0, 10, 0, 6, 170, 0, 0, 0,
          0, 0, 0, 0, 0, 0, 0, 0, 0, 0, 0, 170, 0, 0, 0, 0, 0, 0, 0, 0, 0, 0, 0,
          0, 0, 0, 0, 121, 86] 0 = [162, 48]"
  by code_simp

subsection \<open>When the data are exactly as long as declared\<close>

text \<open>
  The second index of the data loop is \<open>sizedata\<close> itself, so an event whose \<open>data\<close>
  holds exactly \<open>sizedata\<close> bytes makes \<open>makeVscpFrame\<close> raise (an IndexError at line
  115, if nothing raised before). The sample events therefore carry a buffer longer than
  their declared size.
\<close>

lemma isl_bindI: "(\<And>x. m = Inr x \<Longrightarrow> isl (k x)) \<Longrightarrow> isl (bind m k)"
  by (cases m) simp_all

lemma index_length: "index n (int n) = Inl IndexError"
  by (simp add: index_def)

lemma write_data_exact_raises:
  assumes "int (length (data e)) = sizedata e"
  shows "write_data e frame \<noteq> Inr frame'"
proof -
  have "getitem (data e) (sizedata e) = Inl IndexError"
    using assms index_length [of "length (data e)"] by (simp add: getitem_def)
  then have "isl (write_data e frame)"
    by (auto simp: write_data_def intro!: isl_bindI)
  then show ?thesis
    by auto
qed

lemma makeVscpFrame_exact_data_raises:
  assumes "int (length (data e)) = sizedata e"
  shows "isl (makeVscpFrame dt ptype (Ex e))"
  using write_data_exact_raises [OF assms]
  by (auto simp: makeVscpFrame_def intro!: isl_bindI)

section \<open>Claims\<close>

text \<open>
  C1. The specification asks for a frame of \<open>1 + HEADER_LENGTH + n + 2\<close> bytes for an
  event of \<open>n\<close> data bytes. Line 126 cuts the buffer at
  \<open>1 + VSCP_MULTICAST_PACKET0_HEADER_LENGTH + 13 + 2\<close> whatever \<open>n\<close> is: for the event of
  the specification's own scenario, which has no data, the frame returned has 51 bytes and
  not 38.
\<close>

theorem makeVscpFrame_golden_length:
  "frame_length (makeVscpFrame clock 0 (Ex golden)) = Inr 51 \<and>
   1 + VSCP_MULTICAST_PACKET0_HEADER_LENGTH + sizedata golden + 2 = 38"
proof -
  have "frame_length (makeVscpFrame clock 0 (Ex golden)) = Inr 51"
    by (simp add: golden_frame frame_length_def)
  moreover have "1 + VSCP_MULTICAST_PACKET0_HEADER_LENGTH + sizedata golden + 2 = 38"
    by (simp add: golden_def vscp_pos)
  ultimately show ?thesis
    by (rule conjI)
qed

text \<open>
  C2. The specification asks for all sixteen GUID bytes in order. The loop of line 106 runs
  over the tuple \<open>(0, 15)\<close>, so only the first and the last byte are copied: for a GUID of
  the bytes 1 to 16 the fourteen bytes in between stay 0.
\<close>

theorem makeVscpFrame_sample_guid:
  "frame_bytes VSCP_MULTICAST_PACKET0_POS_VSCP_GUID 16 (makeVscpFrame clock 0 (Ex sample)) =
     Inr [1, 0, 0, 0, 0, 0, 0, 0, 0, 0, 0, 0, 0, 0, 0, 16] \<and>
   guid sample = [1, 2, 3, 4, 5, 6, 7, 8, 9, 10, 11, 12, 13, 14, 15, 16]"
proof -
  have "frame_bytes VSCP_MULTICAST_PACKET0_POS_VSCP_GUID 16
          (makeVscpFrame clock 0 (Ex sample)) =
        Inr [1, 0, 0, 0, 0, 0, 0, 0, 0, 0, 0, 0, 0, 0, 0, 16]"
    by (simp add: sample_frame frame_bytes_def slice_def vscp_pos)
  moreover have "guid sample = [1, 2, 3, 4, 5, 6, 7, 8, 9, 10, 11, 12, 13, 14, 15, 16]"
    by (simp add: sample_def)
  ultimately show ?thesis
    by (rule conjI)
qed

text \<open>
  C3. The specification asks for the first \<open>sizedata\<close> bytes of the data in the payload
  field. The loop of line 114 runs over the tuple \<open>(0, e.sizedata)\<close>, so it copies
  \<open>data[0]\<close> and \<open>data[sizedata]\<close> only: of the three data bytes 17, 34, 51 the
  frame holds the first, and 0 where the other two belong.
\<close>

theorem makeVscpFrame_sample_data:
  "frame_bytes VSCP_MULTICAST_PACKET0_POS_VSCP_DATA (sizedata sample)
     (makeVscpFrame clock 0 (Ex sample)) = Inr [17, 0, 0] \<and>
   slice (data sample) 0 (sizedata sample) = [17, 34, 51]"
proof -
  have s: "sizedata sample = 3"
    by (simp add: sample_def)
  have "frame_bytes VSCP_MULTICAST_PACKET0_POS_VSCP_DATA (sizedata sample)
          (makeVscpFrame clock 0 (Ex sample)) = Inr [17, 0, 0]"
    by (simp add: sample_frame s frame_bytes_def slice_def vscp_pos)
  moreover have "slice (data sample) 0 (sizedata sample) = [17, 34, 51]"
    by (simp add: sample_def slice_def)
  ultimately show ?thesis
    by (rule conjI)
qed

text \<open>
  C4. The specification asks for the CRC of the bytes from the one after the packet type
  through the last payload byte, stored right after the payload. Lines 118 to 123 take
  the CRC of the escaped text of \<open>frame[1 : 49]\<close> (four characters a byte) and store it at
  positions 49 and 50. For the event of the specification's scenario the two bytes stored
  are 121 and 86; the CRC of the header bytes is 162, 48; and the two bytes after the empty
  payload, where that CRC belongs, are 0.
\<close>

theorem makeVscpFrame_golden_crc:
  "frame_bytes (1 + VSCP_MULTICAST_PACKET0_HEADER_LENGTH + 13) 2
     (makeVscpFrame clock 0 (Ex golden)) = Inr [121, 86] \<and>
   bind (makeVscpFrame clock 0 (Ex golden))
     (\<lambda>frame. Inr (spec_crc_bytes frame (sizedata golden))) = Inr [162, 48] \<and>
   frame_bytes (1 + VSCP_MULTICAST_PACKET0_HEADER_LENGTH + sizedata golden) 2
     (makeVscpFrame clock 0 (Ex golden)) = Inr [0, 0]"
proof -
  have s: "sizedata golden = 0"
    by (simp add: golden_def)
  show ?thesis
    by (simp add: golden_frame s golden_spec_crc frame_bytes_def slice_def vscp_pos)
qed







text \<open>
  C7. The specification asks for the timestamp as four bytes, most significant first.
  Line 71 shifts by 8 where the second byte needs a shift by 16, so the second byte of the
  field repeats the third: the timestamp 0x01020304 is written as 1, 3, 3, 4.
\<close>

theorem makeVscpFrame_sample_timestamp:
  "frame_bytes VSCP_MULTICAST_PACKET0_POS_TIMESTAMP 4 (makeVscpFrame clock 0 (Ex sample)) =
     Inr [1, 3, 3, 4] \<and>
   spec_timestamp_bytes (timestamp sample) = [1, 2, 3, 4]"
proof -
  have "frame_bytes VSCP_MULTICAST_PACKET0_POS_TIMESTAMP 4
          (makeVscpFrame clock 0 (Ex sample)) = Inr [1, 3, 3, 4]"
    by (simp add: sample_frame frame_bytes_def slice_def vscp_pos)
  moreover have "spec_timestamp_bytes (timestamp sample) = [1, 2, 3, 4]"
    by (simp add: sample_def spec_timestamp_bytes_def)
  ultimately show ?thesis
    by (rule conjI)
qed

text \<open>
  C8. For an event whose six date and time fields are zero the specification asks for the
  current UTC date and time, the year in full. Lines 81 and 82 write
  \<open>1900 + dt.year\<close>, and \<open>dt.year\<close> is the full year already: with the clock at
  15 June 2020, 12:34:56 the year bytes are 15, 80 (the year 3920) and not 7, 228. The five
  bytes after them are the clock's.
\<close>

theorem makeVscpFrame_sample_datetime:
  "frame_bytes VSCP_MULTICAST_PACKET0_POS_YEAR_MSB 7 (makeVscpFrame clock 0 (Ex sample)) =
     Inr [15, 80, 6, 15, 12, 34, 56] \<and>
   spec_datetime_bytes clock = [7, 228, 6, 15, 12, 34, 56]"
proof -
  have "frame_bytes VSCP_MULTICAST_PACKET0_POS_YEAR_MSB 7
          (makeVscpFrame clock 0 (Ex sample)) = Inr [15, 80, 6, 15, 12, 34, 56]"
    by (simp add: sample_frame frame_bytes_def slice_def vscp_pos)
  moreover have "spec_datetime_bytes clock = [7, 228, 6, 15, 12, 34, 56]"
    by (simp add: clock_def spec_datetime_bytes_def)
  ultimately show ?thesis
    by (rule conjI)
qed

text \<open>
  C9. An extended event whose \<open>sizedata\<close> is greater than \<open>VSCP_LEVEL2_MAXDATA\<close> makes
  \<open>makeVscpFrame\<close> raise the ValueError of line 54, whatever the packet type, the clock and
  the other fields are: the result is the error and no frame.
\<close>

theorem makeVscpFrame_data_too_large:
  "sizedata e > VSCP_LEVEL2_MAXDATA \<Longrightarrow>
   makeVscpFrame dt ptype (Ex e) =
     Inl (ValueError ''VSCP event has data size that is greater than allowed.'')"
  by (simp add: makeVscpFrame_def)

text \<open>C9 at the event of the scenario with a declared size of 480.\<close>

theorem makeVscpFrame_data_too_large_witness:
  "sizedata oversize > VSCP_LEVEL2_MAXDATA \<and>
   makeVscpFrame clock 0 (Ex oversize) =
     Inl (ValueError ''VSCP event has data size that is greater than allowed.'')"
proof -
  have big: "sizedata oversize > VSCP_LEVEL2_MAXDATA"
    by (simp add: oversize_def VSCP_LEVEL2_MAXDATA_def)
  show ?thesis
    using big makeVscpFrame_data_too_large [OF big, of clock 0] by simp
qed



end
